theory Spec2Isabelle
  imports Main "HOL-Library.Word"
begin

unbundle bit_operations_syntax

type_synonym u32 = "32 word"
type_synonym u64 = "64 word"

section \<open>Qualcomm APQ8096 pinctrl (pinctrl-apq8096.c)\<close>

subsection \<open>C arrays and C strings\<close>

text \<open>
  An unchecked C array read. The source indexes its tables with no bounds check; an index
  past the end is undefined behaviour, which the model makes visible as \<open>None\<close>.
\<close>

definition array_read :: "'a list \<Rightarrow> nat \<Rightarrow> 'a option" where
  "array_read xs i = (if i < length xs then Some (xs ! i) else None)"

definition NUL :: char where
  "NUL = CHR 0x00"

text \<open>The string a \<open>const char *\<close> to the start of a buffer denotes: the bytes before the first NUL.\<close>

definition cstr :: "char list \<Rightarrow> string" where
  "cstr buf = takeWhile (\<lambda>c. c \<noteq> NUL) buf"

text \<open>
  Modelled from the spec: the \<open>%u\<close> conversion and \<open>snprintf\<close> of the boot loader's
  own C library are not part of the two source files. \<open>fmt_u\<close> is the decimal rendering
  of an unsigned value (most significant digit first, no padding), and \<open>snprintf\<close> stores
  at most \<open>sz - 1\<close> characters of the formatted output followed by a NUL at the start
  of the buffer, leaves the rest of the buffer as it was, and returns the length of the
  whole formatted output.
\<close>

definition digit_char :: "nat \<Rightarrow> char" where
  "digit_char d = ''0123456789'' ! d"

fun fmt_u :: "nat \<Rightarrow> string" where
  "fmt_u n = (if n < 10 then [digit_char n] else fmt_u (n div 10) @ [digit_char (n mod 10)])"

declare fmt_u.simps [simp del]

definition snprintf :: "char list \<Rightarrow> nat \<Rightarrow> string \<Rightarrow> char list \<times> nat" where
  "snprintf buf sz out =
     (if sz = 0 then (buf, length out)
      else (let w = take (sz - 1) out @ [NUL]
            in (w @ drop (length w) buf, length out)))"

subsection \<open>What a decimal rendering is\<close>

text \<open>
  Independently of how \<open>fmt_u\<close> produces its digits: a string is the decimal rendering of
  \<open>n\<close> when it is a non-empty string of digits, has no leading zero unless it is \<open>0\<close>
  itself, and reads back as \<open>n\<close> (most significant digit first).
\<close>

definition digit_val :: "char \<Rightarrow> nat" where
  "digit_val c = of_char c - 48"

definition dec_value :: "string \<Rightarrow> nat" where
  "dec_value ds = foldl (\<lambda>a c. 10 * a + digit_val c) 0 ds"

definition is_decimal_of :: "string \<Rightarrow> nat \<Rightarrow> bool" where
  "is_decimal_of ds n \<longleftrightarrow>
     ds \<noteq> [] \<and> list_all (\<lambda>c. c \<in> set ''0123456789'') ds
     \<and> (hd ds = CHR ''0'' \<longrightarrow> ds = ''0'') \<and> dec_value ds = n"

subsection \<open>The tables\<close>

definition MAX_PIN_NAME_LEN :: nat where
  "MAX_PIN_NAME_LEN = 32"

definition msm_pinctrl_pins :: "string list" where
  "msm_pinctrl_pins =
     [''SDC1_CLK'', ''SDC1_CMD'', ''SDC1_DATA'', ''SDC2_CLK'', ''SDC2_CMD'', ''SDC2_DATA'',
      ''SDC1_RCLK'']"

text \<open>
  \<open>struct pinctrl_function\<close> is declared in pinctrl-qcom.h, which is not among the source
  files: a name and a mux value, in the order of the initialiser \<open>{"blsp_uart8", 2}\<close>.
\<close>

record pinctrl_function =
  fn_name :: string
  fn_val :: int

definition msm_pinctrl_functions :: "pinctrl_function list" where
  "msm_pinctrl_functions = [\<lparr>fn_name = ''blsp_uart8'', fn_val = 2\<rparr>]"

subsection \<open>The accessors\<close>

definition apq8096_get_function_name :: "u32 \<Rightarrow> string option" where
  "apq8096_get_function_name selector =
     map_option fn_name (array_read msm_pinctrl_functions (unat selector))"

text \<open>
  The scratch buffer \<open>pin_name\<close> is the only mutable state of the driver; the function
  takes it and returns it updated, together with the string the returned pointer denotes.
\<close>

definition apq8096_get_pin_name :: "u32 \<Rightarrow> char list \<Rightarrow> string option \<times> char list" where
  "apq8096_get_pin_name selector pin_name =
     (if selector < 150 then
        (let pin_name' = fst (snprintf pin_name MAX_PIN_NAME_LEN (''GPIO_'' @ fmt_u (unat selector)))
         in (Some (cstr pin_name'), pin_name'))
      else (array_read msm_pinctrl_pins (unat (selector - 150)), pin_name))"

definition apq8096_get_function_mux :: "u32 \<Rightarrow> u32 option" where
  "apq8096_get_function_mux selector =
     map_option (\<lambda>f. word_of_int (fn_val f)) (array_read msm_pinctrl_functions (unat selector))"

text \<open>
  \<open>struct msm_pinctrl_data\<close> (also declared in pinctrl-qcom.h): the fields the source
  initialises. \<open>ARRAY_SIZE\<close> is the number of elements of the array.
\<close>

record msm_pinctrl_data =
  pin_count :: nat
  functions_count :: nat
  get_function_name :: "u32 \<Rightarrow> string option"
  get_function_mux :: "u32 \<Rightarrow> u32 option"
  get_pin_name :: "u32 \<Rightarrow> char list \<Rightarrow> string option \<times> char list"

definition apq8096_data :: msm_pinctrl_data where
  "apq8096_data =
     \<lparr>pin_count = 157,
      functions_count = length msm_pinctrl_functions,
      get_function_name = apq8096_get_function_name,
      get_function_mux = apq8096_get_function_mux,
      get_pin_name = apq8096_get_pin_name\<rparr>"

section \<open>Allwinner sun50i (H6) USB 3.0 PHY (phy-sun50i-usb3.c)\<close>

subsection \<open>Register map and bit layout\<close>

definition SUNXI_ISCR :: u32 where
  "SUNXI_ISCR = 0x00"

definition SUNXI_PIPE_CLOCK_CONTROL :: u32 where
  "SUNXI_PIPE_CLOCK_CONTROL = 0x14"

definition SUNXI_PHY_TUNE_LOW :: u32 where
  "SUNXI_PHY_TUNE_LOW = 0x18"

definition SUNXI_PHY_TUNE_HIGH :: u32 where
  "SUNXI_PHY_TUNE_HIGH = 0x1c"

definition SUNXI_PHY_EXTERNAL_CONTROL :: u32 where
  "SUNXI_PHY_EXTERNAL_CONTROL = 0x20"

definition SUNXI_ISCR_FORCE_VBUS :: u32 where
  "SUNXI_ISCR_FORCE_VBUS = push_bit 12 3"

definition SUNXI_PCC_PIPE_CLK_OPEN :: u32 where
  "SUNXI_PCC_PIPE_CLK_OPEN = push_bit 6 1"

definition SUNXI_PEC_EXTERN_VBUS :: u32 where
  "SUNXI_PEC_EXTERN_VBUS = push_bit 1 3"

definition SUNXI_PEC_SSC_EN :: u32 where
  "SUNXI_PEC_SSC_EN = push_bit 24 1"

definition SUNXI_PEC_REF_SSP_EN :: u32 where
  "SUNXI_PEC_REF_SSP_EN = push_bit 26 1"

text \<open>
  Modelled from the spec: \<open>GENMASK\<close> of linux/bitops.h is not among the source files.
  \<open>GENMASK(h, l)\<close> is the \<open>unsigned long\<close> whose bits \<open>l\<close> to \<open>h\<close> (both included) are
  set, computed the way the header does: all ones shifted left by \<open>l\<close>, ANDed with all ones
  shifted right by \<open>BITS_PER_LONG - 1 - h\<close>. The SoC is a 64-bit one, so \<open>unsigned long\<close>
  has 64 bits.
\<close>

definition BITS_PER_LONG :: nat where
  "BITS_PER_LONG = 64"

definition GENMASK :: "nat \<Rightarrow> nat \<Rightarrow> u64" where
  "GENMASK h l = push_bit l (NOT 0) AND drop_bit (BITS_PER_LONG - 1 - h) (NOT 0)"

definition SUNXI_TX_DEEMPH_3P5DB :: "u32 \<Rightarrow> u32" where
  "SUNXI_TX_DEEMPH_3P5DB n = push_bit 19 n"

definition SUNXI_TX_DEEMPH_3P5DB_MASK :: u64 where
  "SUNXI_TX_DEEMPH_3P5DB_MASK = GENMASK 24 19"

definition SUNXI_TX_DEEMPH_6DB :: "u32 \<Rightarrow> u32" where
  "SUNXI_TX_DEEMPH_6DB n = push_bit 13 n"

definition SUNXI_TX_DEEMPH_6GB_MASK :: u64 where
  "SUNXI_TX_DEEMPH_6GB_MASK = GENMASK 18 13"

definition SUNXI_TX_SWING_FULL :: "u32 \<Rightarrow> u32" where
  "SUNXI_TX_SWING_FULL n = push_bit 6 n"

definition SUNXI_TX_SWING_FULL_MASK :: u64 where
  "SUNXI_TX_SWING_FULL_MASK = GENMASK 12 6"

definition SUNXI_LOS_BIAS :: "u32 \<Rightarrow> u32" where
  "SUNXI_LOS_BIAS n = push_bit 3 n"

definition SUNXI_LOS_BIAS_MASK :: u64 where
  "SUNXI_LOS_BIAS_MASK = GENMASK 5 3"

definition SUNXI_TXVBOOSTLVL :: "u32 \<Rightarrow> u32" where
  "SUNXI_TXVBOOSTLVL n = push_bit 0 n"

definition SUNXI_TXVBOOSTLVL_MASK :: u64 where
  "SUNXI_TXVBOOSTLVL_MASK = GENMASK 2 0"

subsection \<open>Device state\<close>

text \<open>
  What the driver does to the outside world, in the order it does it: calls into the clock
  and reset controllers and accesses to the register block (\<open>Writel v off\<close> stores \<open>v\<close>
  at byte offset \<open>off\<close>).
\<close>

datatype event =
    ClkPrepareEnable
  | ClkDisableUnprepare
  | ResetDeassert
  | ResetAssert
  | Readl u32
  | Writel u32 u32

text \<open>
  \<open>struct sun50i_usb3_phy_priv\<close> together with the hardware its three handles stand for:
  the contents of the register block by byte offset, the reset line, the clock gate, and
  the log of the calls made so far.
\<close>

record sun50i_usb3_phy_priv =
  regs :: "u32 \<Rightarrow> u32"
  reset_asserted :: bool
  clk_enabled :: bool
  trace :: "event list"

text \<open>
  Modelled from the spec: the clock and reset controller calls and the MMIO accessors are
  external collaborators, not among the source files. They are a mock clock/reset pair
  and a register block that keeps what was written. \<open>clk_prepare_enable\<close> and
  \<open>reset_deassert\<close> can fail: the result code \<open>ret\<close> the controller gives is an input,
  0 for success; on failure the line is left as it was. \<open>reset_assert\<close> and
  \<open>clk_disable_unprepare\<close> take effect; the driver discards whatever they return.
\<close>

definition clk_prepare_enable :: "int \<Rightarrow> sun50i_usb3_phy_priv \<Rightarrow> int \<times> sun50i_usb3_phy_priv" where
  "clk_prepare_enable ret p =
     (ret, p\<lparr>clk_enabled := (if ret = 0 then True else clk_enabled p),
             trace := trace p @ [ClkPrepareEnable]\<rparr>)"

definition clk_disable_unprepare :: "sun50i_usb3_phy_priv \<Rightarrow> sun50i_usb3_phy_priv" where
  "clk_disable_unprepare p = p\<lparr>clk_enabled := False, trace := trace p @ [ClkDisableUnprepare]\<rparr>"

definition reset_deassert :: "int \<Rightarrow> sun50i_usb3_phy_priv \<Rightarrow> int \<times> sun50i_usb3_phy_priv" where
  "reset_deassert ret p =
     (ret, p\<lparr>reset_asserted := (if ret = 0 then False else reset_asserted p),
             trace := trace p @ [ResetDeassert]\<rparr>)"

definition reset_assert :: "sun50i_usb3_phy_priv \<Rightarrow> sun50i_usb3_phy_priv" where
  "reset_assert p = p\<lparr>reset_asserted := True, trace := trace p @ [ResetAssert]\<rparr>"

definition readl :: "u32 \<Rightarrow> sun50i_usb3_phy_priv \<Rightarrow> u32 \<times> sun50i_usb3_phy_priv" where
  "readl off p = (regs p off, p\<lparr>trace := trace p @ [Readl off]\<rparr>)"

definition writel :: "u32 \<Rightarrow> u32 \<Rightarrow> sun50i_usb3_phy_priv \<Rightarrow> sun50i_usb3_phy_priv" where
  "writel v off p = p\<lparr>regs := (regs p)(off := v), trace := trace p @ [Writel v off]\<rparr>"

subsection \<open>The driver\<close>

text \<open>
  \<open>val &= ~(...)\<close>: the masks are \<open>unsigned long\<close>, so the 32-bit \<open>val\<close> is widened, ANDed
  with the complement of the 64-bit mask and narrowed again by the assignment.
\<close>

definition and_not_mask :: "u32 \<Rightarrow> u64 \<Rightarrow> u32" where
  "and_not_mask v m = ucast ((ucast v :: u64) AND NOT m)"

definition sun50i_usb3_phy_open :: "sun50i_usb3_phy_priv \<Rightarrow> sun50i_usb3_phy_priv" where
  "sun50i_usb3_phy_open phy0 =
     (let (val, phy) = readl SUNXI_PHY_EXTERNAL_CONTROL phy0;
          val = val OR SUNXI_PEC_EXTERN_VBUS;
          val = val OR (SUNXI_PEC_SSC_EN OR SUNXI_PEC_REF_SSP_EN);
          phy = writel val SUNXI_PHY_EXTERNAL_CONTROL phy;

          (val, phy) = readl SUNXI_PIPE_CLOCK_CONTROL phy;
          val = val OR SUNXI_PCC_PIPE_CLK_OPEN;
          phy = writel val SUNXI_PIPE_CLOCK_CONTROL phy;

          (val, phy) = readl SUNXI_ISCR phy;
          val = val OR SUNXI_ISCR_FORCE_VBUS;
          phy = writel val SUNXI_ISCR phy;

          phy = writel 0x0047fc87 SUNXI_PHY_TUNE_LOW phy;

          (val, phy) = readl SUNXI_PHY_TUNE_HIGH phy;
          val = and_not_mask val
                  (SUNXI_TXVBOOSTLVL_MASK OR SUNXI_LOS_BIAS_MASK OR
                   SUNXI_TX_SWING_FULL_MASK OR SUNXI_TX_DEEMPH_6GB_MASK OR
                   SUNXI_TX_DEEMPH_3P5DB_MASK);
          val = val OR SUNXI_TXVBOOSTLVL 0x7;
          val = val OR SUNXI_LOS_BIAS 0x7;
          val = val OR SUNXI_TX_SWING_FULL 0x55;
          val = val OR SUNXI_TX_DEEMPH_6DB 0x20;
          val = val OR SUNXI_TX_DEEMPH_3P5DB 0x15
      in writel val SUNXI_PHY_TUNE_HIGH phy)"

text \<open>
  \<open>clk_ret\<close> and \<open>rst_ret\<close> are what the clock and the reset controller answer to the
  enable and the de-assert of this call.
\<close>

definition sun50i_usb3_phy_init :: "int \<Rightarrow> int \<Rightarrow> sun50i_usb3_phy_priv \<Rightarrow> int \<times> sun50i_usb3_phy_priv" where
  "sun50i_usb3_phy_init clk_ret rst_ret priv0 =
     (let (ret, priv) = clk_prepare_enable clk_ret priv0
      in if ret \<noteq> 0 then (ret, priv)
         else (let (ret, priv) = reset_deassert rst_ret priv
               in if ret \<noteq> 0 then (ret, clk_disable_unprepare priv)
                  else (0, sun50i_usb3_phy_open priv)))"

definition sun50i_usb3_phy_exit :: "sun50i_usb3_phy_priv \<Rightarrow> int \<times> sun50i_usb3_phy_priv" where
  "sun50i_usb3_phy_exit priv = (0, clk_disable_unprepare (reset_assert priv))"

subsection \<open>Observations on the log and on registers\<close>

fun is_readl :: "event \<Rightarrow> bool" where
  "is_readl (Readl off) = True"
| "is_readl e = False"

fun is_writel :: "event \<Rightarrow> bool" where
  "is_writel (Writel v off) = True"
| "is_writel e = False"

fun is_mmio :: "event \<Rightarrow> bool" where
  "is_mmio e = (is_readl e \<or> is_writel e)"

text \<open>The events a call added: what the log holds beyond the log it started from.\<close>

definition new_events :: "sun50i_usb3_phy_priv \<Rightarrow> sun50i_usb3_phy_priv \<Rightarrow> event list" where
  "new_events before after = drop (length (trace before)) (trace after)"

text \<open>The bit-field \<open>[h:l]\<close> of a register value, read as a number.\<close>

definition field :: "nat \<Rightarrow> nat \<Rightarrow> u32 \<Rightarrow> u32" where
  "field h l v = take_bit (Suc h - l) (drop_bit l v)"

definition in_field :: "nat \<Rightarrow> nat \<Rightarrow> nat \<Rightarrow> bool" where
  "in_field h l n = (l \<le> n \<and> n \<le> h)"

text \<open>
  The closed form of what the tuning sequence leaves in the tune-high register when it read
  \<open>v\<close> there: bits 0 to 24 replaced by the five constants, bits 25 to 31 kept.
  (\<open>open_regs\<close> below proves that the driver computes it.)
\<close>

definition tune_high_new :: "u32 \<Rightarrow> u32" where
  "tune_high_new v = (v AND NOT 0x1FFFFFF) OR 0xAC157F"

text \<open>
  Two concrete devices for evaluating the driver: one as probe leaves it (clock off, reset
  asserted, registers zero, nothing logged), and one whose registers read all ones.
\<close>

definition phy_probed :: sun50i_usb3_phy_priv where
  "phy_probed = \<lparr>regs = (\<lambda>off. 0), reset_asserted = True, clk_enabled = False, trace = []\<rparr>"

definition phy_ones :: sun50i_usb3_phy_priv where
  "phy_ones = \<lparr>regs = (\<lambda>off. 0xFFFFFFFF), reset_asserted = True, clk_enabled = False, trace = []\<rparr>"

section \<open>Properties of the PHY driver\<close>

subsection \<open>The masks and the tune-high value\<close>

lemma GENMASK_bit: "h < 64 \<Longrightarrow> bit (GENMASK h l) n \<longleftrightarrow> l \<le> n \<and> n \<le> h"
  by (auto simp add: GENMASK_def BITS_PER_LONG_def bit_simps)

lemma tune_high_masks:
  "SUNXI_TXVBOOSTLVL_MASK OR SUNXI_LOS_BIAS_MASK OR SUNXI_TX_SWING_FULL_MASK OR
   SUNXI_TX_DEEMPH_6GB_MASK OR SUNXI_TX_DEEMPH_3P5DB_MASK = 0x1FFFFFF"
  by (simp add: SUNXI_TXVBOOSTLVL_MASK_def SUNXI_LOS_BIAS_MASK_def SUNXI_TX_SWING_FULL_MASK_def
      SUNXI_TX_DEEMPH_6GB_MASK_def SUNXI_TX_DEEMPH_3P5DB_MASK_def GENMASK_def BITS_PER_LONG_def
      mask_numeral)

lemma and_not_mask_low25: "and_not_mask v 0x1FFFFFF = v AND NOT 0x1FFFFFF"
  unfolding and_not_mask_def
  by (rule bit_word_eqI) (auto simp add: bit_simps)

lemma tune_high_values:
  "((((v OR SUNXI_TXVBOOSTLVL 0x7) OR SUNXI_LOS_BIAS 0x7) OR SUNXI_TX_SWING_FULL 0x55) OR
      SUNXI_TX_DEEMPH_6DB 0x20) OR SUNXI_TX_DEEMPH_3P5DB 0x15 = v OR 0xAC157F"
  by (simp add: SUNXI_TXVBOOSTLVL_def SUNXI_LOS_BIAS_def SUNXI_TX_SWING_FULL_def
      SUNXI_TX_DEEMPH_6DB_def SUNXI_TX_DEEMPH_3P5DB_def or.assoc)

lemma open_regs:
  "regs (sun50i_usb3_phy_open p) =
     (regs p)
       (SUNXI_PHY_EXTERNAL_CONTROL :=
          (regs p SUNXI_PHY_EXTERNAL_CONTROL OR SUNXI_PEC_EXTERN_VBUS) OR
          (SUNXI_PEC_SSC_EN OR SUNXI_PEC_REF_SSP_EN),
        SUNXI_PIPE_CLOCK_CONTROL := regs p SUNXI_PIPE_CLOCK_CONTROL OR SUNXI_PCC_PIPE_CLK_OPEN,
        SUNXI_ISCR := regs p SUNXI_ISCR OR SUNXI_ISCR_FORCE_VBUS,
        SUNXI_PHY_TUNE_LOW := 0x0047fc87,
        SUNXI_PHY_TUNE_HIGH := tune_high_new (regs p SUNXI_PHY_TUNE_HIGH))"
  by (simp add: sun50i_usb3_phy_open_def readl_def writel_def Let_def tune_high_masks
      and_not_mask_low25 tune_high_values tune_high_new_def
      SUNXI_PHY_EXTERNAL_CONTROL_def SUNXI_PIPE_CLOCK_CONTROL_def SUNXI_ISCR_def
      SUNXI_PHY_TUNE_LOW_def SUNXI_PHY_TUNE_HIGH_def)

lemma open_trace:
  "trace (sun50i_usb3_phy_open p) = trace p @
     [Readl SUNXI_PHY_EXTERNAL_CONTROL,
      Writel (regs (sun50i_usb3_phy_open p) SUNXI_PHY_EXTERNAL_CONTROL) SUNXI_PHY_EXTERNAL_CONTROL,
      Readl SUNXI_PIPE_CLOCK_CONTROL,
      Writel (regs (sun50i_usb3_phy_open p) SUNXI_PIPE_CLOCK_CONTROL) SUNXI_PIPE_CLOCK_CONTROL,
      Readl SUNXI_ISCR,
      Writel (regs (sun50i_usb3_phy_open p) SUNXI_ISCR) SUNXI_ISCR,
      Writel 0x0047fc87 SUNXI_PHY_TUNE_LOW,
      Readl SUNXI_PHY_TUNE_HIGH,
      Writel (regs (sun50i_usb3_phy_open p) SUNXI_PHY_TUNE_HIGH) SUNXI_PHY_TUNE_HIGH]"
  unfolding open_regs
  by (simp add: sun50i_usb3_phy_open_def readl_def writel_def Let_def tune_high_masks
      and_not_mask_low25 tune_high_values tune_high_new_def
      SUNXI_PHY_EXTERNAL_CONTROL_def SUNXI_PIPE_CLOCK_CONTROL_def SUNXI_ISCR_def
      SUNXI_PHY_TUNE_LOW_def SUNXI_PHY_TUNE_HIGH_def)

lemma open_lines:
  "clk_enabled (sun50i_usb3_phy_open p) = clk_enabled p"
  "reset_asserted (sun50i_usb3_phy_open p) = reset_asserted p"
  by (simp_all add: sun50i_usb3_phy_open_def readl_def writel_def Let_def)

lemma init_clk_fail:
  "clk_ret \<noteq> 0 \<Longrightarrow> sun50i_usb3_phy_init clk_ret rst_ret p =
     (clk_ret, p\<lparr>trace := trace p @ [ClkPrepareEnable]\<rparr>)"
  by (simp add: sun50i_usb3_phy_init_def clk_prepare_enable_def)

lemma init_reset_fail:
  "rst_ret \<noteq> 0 \<Longrightarrow> sun50i_usb3_phy_init 0 rst_ret p =
     (rst_ret, p\<lparr>clk_enabled := False,
                 trace := trace p @ [ClkPrepareEnable, ResetDeassert, ClkDisableUnprepare]\<rparr>)"
  by (simp add: sun50i_usb3_phy_init_def clk_prepare_enable_def reset_deassert_def
      clk_disable_unprepare_def)

lemma init_ok:
  "sun50i_usb3_phy_init 0 0 p =
     (0, sun50i_usb3_phy_open
           (p\<lparr>clk_enabled := True, reset_asserted := False,
              trace := trace p @ [ClkPrepareEnable, ResetDeassert]\<rparr>))"
  by (simp add: sun50i_usb3_phy_init_def clk_prepare_enable_def reset_deassert_def)

lemma init_success_iff:
  "sun50i_usb3_phy_init clk_ret rst_ret p = (0, p') \<longleftrightarrow>
     clk_ret = 0 \<and> rst_ret = 0 \<and> p' = snd (sun50i_usb3_phy_init 0 0 p)"
  by (cases "clk_ret = 0"; cases "rst_ret = 0") (auto simp add: init_clk_fail init_reset_fail init_ok)

lemma low25_is_mask: "(0x1FFFFFF :: u32) = mask 25"
  by (simp add: mask_numeral)

lemma field_tune_high_new:
  "Suc h \<le> 25 \<Longrightarrow> field h l (tune_high_new v) = field h l 0xAC157F"
  by (rule bit_word_eqI) (auto simp add: field_def tune_high_new_def low25_is_mask bit_simps)

lemma tune_high_new_fields:
  "field 2 0 (tune_high_new v) = 0x7"
  "field 5 3 (tune_high_new v) = 0x7"
  "field 12 6 (tune_high_new v) = 0x55"
  "field 18 13 (tune_high_new v) = 0x20"
  "field 24 19 (tune_high_new v) = 0x15"
  by (simp_all add: field_tune_high_new) (simp_all add: field_def)

lemma tune_high_new_outside:
  assumes "25 \<le> n"
  shows "bit (tune_high_new v) n = bit v n"
proof -
  have "take_bit 25 (0xAC157F :: u32) = 0xAC157F"
    by simp
  then have "bit (0xAC157F :: u32) n = bit (take_bit 25 (0xAC157F :: u32)) n"
    by (simp only:)
  also have "\<dots> = (n < 25 \<and> bit (0xAC157F :: u32) n)"
    by (simp only: bit_take_bit_iff)
  finally have "\<not> bit (0xAC157F :: u32) n"
    using assms by auto
  then show ?thesis
    using assms by (auto simp add: tune_high_new_def low25_is_mask bit_simps dest: bit_imp_le_length)
qed

lemma new_events_append: "trace q = trace p @ ev \<Longrightarrow> new_events p q = ev"
  by (simp add: new_events_def)

text \<open>
  C1: when the clock enable succeeds and the reset de-assert that follows fails, \<open>init\<close>
  returns the reset error, the last thing it does is disable the clock again, the clock is
  off on return, and no register of the block is written: the registers are what they were.
\<close>

theorem init_reset_failure_rolls_back:
  assumes "clk_ret = 0" and "rst_ret \<noteq> 0"
    and "sun50i_usb3_phy_init clk_ret rst_ret p = (ret, p')"
  shows "ret = rst_ret \<and> ret \<noteq> 0
    \<and> new_events p p' = [ClkPrepareEnable, ResetDeassert, ClkDisableUnprepare]
    \<and> \<not> clk_enabled p'
    \<and> filter is_writel (new_events p p') = []
    \<and> regs p' = regs p
    \<and> reset_asserted p' = reset_asserted p"
  using assms by (auto simp add: init_reset_fail new_events_def)

theorem init_reset_failure_rolls_back_witness:
  "sun50i_usb3_phy_init 0 (- 5) phy_ones =
     (- 5, phy_ones\<lparr>trace := [ClkPrepareEnable, ResetDeassert, ClkDisableUnprepare]\<rparr>)
   \<and> new_events phy_ones (snd (sun50i_usb3_phy_init 0 (- 5) phy_ones)) =
       [ClkPrepareEnable, ResetDeassert, ClkDisableUnprepare]
   \<and> \<not> clk_enabled (snd (sun50i_usb3_phy_init 0 (- 5) phy_ones))
   \<and> regs (snd (sun50i_usb3_phy_init 0 (- 5) phy_ones)) = regs phy_ones"
proof -
  have run: "sun50i_usb3_phy_init 0 (- 5) phy_ones =
     (- 5, phy_ones\<lparr>trace := [ClkPrepareEnable, ResetDeassert, ClkDisableUnprepare]\<rparr>)"
    by (simp add: sun50i_usb3_phy_init_def clk_prepare_enable_def reset_deassert_def
        clk_disable_unprepare_def phy_ones_def)
  show ?thesis
    using init_reset_failure_rolls_back [OF refl _ run] by (simp add: run)
qed

text \<open>
  C2: when the clock enable fails, \<open>init\<close> returns that error, the only call it made is
  the clock enable (so the reset de-assert is never called and no register is read or
  written), and registers, clock and reset line are what they were.
\<close>

theorem init_clock_failure_touches_nothing:
  assumes "clk_ret \<noteq> 0"
    and "sun50i_usb3_phy_init clk_ret rst_ret p = (ret, p')"
  shows "ret = clk_ret \<and> ret \<noteq> 0
    \<and> new_events p p' = [ClkPrepareEnable]
    \<and> ResetDeassert \<notin> set (new_events p p')
    \<and> filter is_mmio (new_events p p') = []
    \<and> regs p' = regs p
    \<and> clk_enabled p' = clk_enabled p
    \<and> reset_asserted p' = reset_asserted p"
  using assms by (auto simp add: init_clk_fail new_events_def)

theorem init_clock_failure_touches_nothing_witness:
  "sun50i_usb3_phy_init (- 2) 0 phy_probed = (- 2, phy_probed\<lparr>trace := [ClkPrepareEnable]\<rparr>)
   \<and> new_events phy_probed (snd (sun50i_usb3_phy_init (- 2) 0 phy_probed)) = [ClkPrepareEnable]
   \<and> regs (snd (sun50i_usb3_phy_init (- 2) 0 phy_probed)) = regs phy_probed
   \<and> \<not> clk_enabled (snd (sun50i_usb3_phy_init (- 2) 0 phy_probed))"
proof -
  have run: "sun50i_usb3_phy_init (- 2) 0 phy_probed =
      (- 2, phy_probed\<lparr>trace := [ClkPrepareEnable]\<rparr>)"
    by (simp add: sun50i_usb3_phy_init_def clk_prepare_enable_def phy_probed_def)
  show ?thesis
    using init_clock_failure_touches_nothing [OF _ run] by (simp add: run) (simp add: phy_probed_def)
qed

text \<open>
  C3: for every initial register state, after a successful \<open>init\<close> the five fields of
  the tune-high register hold 0x7 (TX boost level, bits 2:0), 0x7 (loss-of-signal bias,
  bits 5:3), 0x55 (TX swing full, bits 12:6), 0x20 (6 dB de-emphasis, bits 18:13) and 0x15
  (3.5 dB de-emphasis, bits 24:19), and every bit outside the five fields is the bit the
  register had before.
\<close>

theorem init_success_tune_high:
  assumes "sun50i_usb3_phy_init clk_ret rst_ret p = (0, p')"
  shows "field 2 0 (regs p' SUNXI_PHY_TUNE_HIGH) = 0x7
    \<and> field 5 3 (regs p' SUNXI_PHY_TUNE_HIGH) = 0x7
    \<and> field 12 6 (regs p' SUNXI_PHY_TUNE_HIGH) = 0x55
    \<and> field 18 13 (regs p' SUNXI_PHY_TUNE_HIGH) = 0x20
    \<and> field 24 19 (regs p' SUNXI_PHY_TUNE_HIGH) = 0x15
    \<and> (\<forall>n. \<not> (in_field 2 0 n \<or> in_field 5 3 n \<or> in_field 12 6 n \<or> in_field 18 13 n
              \<or> in_field 24 19 n) \<longrightarrow>
          bit (regs p' SUNXI_PHY_TUNE_HIGH) n = bit (regs p SUNXI_PHY_TUNE_HIGH) n)"
proof -
  from assms have p': "p' = snd (sun50i_usb3_phy_init 0 0 p)"
    by (simp add: init_success_iff)
  have new: "regs p' SUNXI_PHY_TUNE_HIGH = tune_high_new (regs p SUNXI_PHY_TUNE_HIGH)"
    by (simp add: p' init_ok open_regs)
  have "bit (tune_high_new v) n = bit v n"
    if "\<not> (in_field 2 0 n \<or> in_field 5 3 n \<or> in_field 12 6 n \<or> in_field 18 13 n
              \<or> in_field 24 19 n)" for v n
  proof -
    from that have "25 \<le> n"
      by (simp add: in_field_def) arith
    then show ?thesis
      by (rule tune_high_new_outside)
  qed
  then show ?thesis
    unfolding new by (simp only: tune_high_new_fields) blast
qed

theorem init_success_tune_high_witness:
  "regs (snd (sun50i_usb3_phy_init 0 0 phy_ones)) SUNXI_PHY_TUNE_HIGH = 0xFEAC157F
   \<and> field 2 0 (regs (snd (sun50i_usb3_phy_init 0 0 phy_ones)) SUNXI_PHY_TUNE_HIGH) = 0x7
   \<and> field 24 19 (regs (snd (sun50i_usb3_phy_init 0 0 phy_ones)) SUNXI_PHY_TUNE_HIGH) = 0x15
   \<and> bit (regs (snd (sun50i_usb3_phy_init 0 0 phy_ones)) SUNXI_PHY_TUNE_HIGH) 31
       = bit (regs phy_ones SUNXI_PHY_TUNE_HIGH) 31"
proof -
  have run: "sun50i_usb3_phy_init 0 0 phy_ones = (0, snd (sun50i_usb3_phy_init 0 0 phy_ones))"
    by (simp add: init_ok)
  have v: "regs (snd (sun50i_usb3_phy_init 0 0 phy_ones)) SUNXI_PHY_TUNE_HIGH = 0xFEAC157F"
    by (simp add: init_ok open_regs tune_high_new_def phy_ones_def)
  have "\<not> (in_field 2 0 31 \<or> in_field 5 3 31 \<or> in_field 12 6 31 \<or> in_field 18 13 31
              \<or> in_field 24 19 31)"
    by (simp add: in_field_def)
  with init_success_tune_high [OF run] v show ?thesis
    by blast
qed

text \<open>
  C4: from every starting state and whatever the clock and reset controllers answered to
  \<open>init\<close> (success or either failure), \<open>init\<close> followed at once by \<open>exit\<close> leaves the
  reset line asserted and the clock disabled; \<open>exit\<close> does exactly the two calls.
\<close>

theorem init_then_exit_powers_down:
  "reset_asserted (snd (sun50i_usb3_phy_exit (snd (sun50i_usb3_phy_init clk_ret rst_ret p))))
   \<and> \<not> clk_enabled (snd (sun50i_usb3_phy_exit (snd (sun50i_usb3_phy_init clk_ret rst_ret p))))
   \<and> new_events (snd (sun50i_usb3_phy_init clk_ret rst_ret p))
        (snd (sun50i_usb3_phy_exit (snd (sun50i_usb3_phy_init clk_ret rst_ret p))))
       = [ResetAssert, ClkDisableUnprepare]"
  by (simp add: sun50i_usb3_phy_exit_def clk_disable_unprepare_def reset_assert_def new_events_def)

text \<open>
  C9: \<open>exit\<close> has no error path. In every state it returns 0, asserts the reset line and
  then disables the clock, in that order and nothing else, and leaves the device off
  (reset asserted, clock disabled) with its registers untouched.
\<close>

theorem exit_always_succeeds:
  "fst (sun50i_usb3_phy_exit p) = 0
   \<and> new_events p (snd (sun50i_usb3_phy_exit p)) = [ResetAssert, ClkDisableUnprepare]
   \<and> reset_asserted (snd (sun50i_usb3_phy_exit p))
   \<and> \<not> clk_enabled (snd (sun50i_usb3_phy_exit p))
   \<and> regs (snd (sun50i_usb3_phy_exit p)) = regs p"
  by (simp add: sun50i_usb3_phy_exit_def clk_disable_unprepare_def reset_assert_def new_events_def)

lemma init_ok_events:
  "new_events p (snd (sun50i_usb3_phy_init 0 0 p)) =
     [ClkPrepareEnable, ResetDeassert,
      Readl SUNXI_PHY_EXTERNAL_CONTROL,
      Writel (regs (snd (sun50i_usb3_phy_init 0 0 p)) SUNXI_PHY_EXTERNAL_CONTROL)
        SUNXI_PHY_EXTERNAL_CONTROL,
      Readl SUNXI_PIPE_CLOCK_CONTROL,
      Writel (regs (snd (sun50i_usb3_phy_init 0 0 p)) SUNXI_PIPE_CLOCK_CONTROL)
        SUNXI_PIPE_CLOCK_CONTROL,
      Readl SUNXI_ISCR,
      Writel (regs (snd (sun50i_usb3_phy_init 0 0 p)) SUNXI_ISCR) SUNXI_ISCR,
      Writel 0x0047fc87 SUNXI_PHY_TUNE_LOW,
      Readl SUNXI_PHY_TUNE_HIGH,
      Writel (regs (snd (sun50i_usb3_phy_init 0 0 p)) SUNXI_PHY_TUNE_HIGH) SUNXI_PHY_TUNE_HIGH]"
  by (rule new_events_append) (simp add: init_ok open_trace)

text \<open>
  C5 as stated fails: on the success path from the probed device the tuning sequence reads
  the register block four times, not three (the tune-high register is read before it is
  rewritten).
\<close>

theorem tuning_three_reads_counterexample:
  "fst (sun50i_usb3_phy_init 0 0 phy_probed) = 0
   \<and> length (filter is_readl (new_events phy_probed (snd (sun50i_usb3_phy_init 0 0 phy_probed)))) = 4
   \<and> length (filter is_readl (new_events phy_probed (snd (sun50i_usb3_phy_init 0 0 phy_probed)))) \<noteq> 3"
  by (simp add: init_ok_events) (simp add: init_ok)

text \<open>
  C5, amended: on the success path the tuning sequence of \<open>init\<close> performs exactly 5
  register writes and exactly 4 register reads on the block (read-modify-write of the
  external-control, pipe-clock-control, ISCR and tune-high registers, plain write of
  tune-low), in the order listed, and has no other effect: clock and reset stay as the
  enable and the de-assert left them, and every other register keeps its value.
\<close>

theorem init_success_side_effects:
  assumes "sun50i_usb3_phy_init clk_ret rst_ret p = (0, p')"
  shows "new_events p p' =
     [ClkPrepareEnable, ResetDeassert,
      Readl SUNXI_PHY_EXTERNAL_CONTROL,
      Writel (regs p' SUNXI_PHY_EXTERNAL_CONTROL) SUNXI_PHY_EXTERNAL_CONTROL,
      Readl SUNXI_PIPE_CLOCK_CONTROL,
      Writel (regs p' SUNXI_PIPE_CLOCK_CONTROL) SUNXI_PIPE_CLOCK_CONTROL,
      Readl SUNXI_ISCR,
      Writel (regs p' SUNXI_ISCR) SUNXI_ISCR,
      Writel 0x0047fc87 SUNXI_PHY_TUNE_LOW,
      Readl SUNXI_PHY_TUNE_HIGH,
      Writel (regs p' SUNXI_PHY_TUNE_HIGH) SUNXI_PHY_TUNE_HIGH]
   \<and> length (filter is_writel (new_events p p')) = 5
   \<and> length (filter is_readl (new_events p p')) = 4
   \<and> clk_enabled p' \<and> \<not> reset_asserted p'
   \<and> (\<forall>off. off \<notin> {SUNXI_PHY_EXTERNAL_CONTROL, SUNXI_PIPE_CLOCK_CONTROL, SUNXI_ISCR,
                     SUNXI_PHY_TUNE_LOW, SUNXI_PHY_TUNE_HIGH} \<longrightarrow> regs p' off = regs p off)"
proof -
  from assms have p': "p' = snd (sun50i_usb3_phy_init 0 0 p)"
    by (simp add: init_success_iff)
  have ev: "new_events p p' =
     [ClkPrepareEnable, ResetDeassert,
      Readl SUNXI_PHY_EXTERNAL_CONTROL,
      Writel (regs p' SUNXI_PHY_EXTERNAL_CONTROL) SUNXI_PHY_EXTERNAL_CONTROL,
      Readl SUNXI_PIPE_CLOCK_CONTROL,
      Writel (regs p' SUNXI_PIPE_CLOCK_CONTROL) SUNXI_PIPE_CLOCK_CONTROL,
      Readl SUNXI_ISCR,
      Writel (regs p' SUNXI_ISCR) SUNXI_ISCR,
      Writel 0x0047fc87 SUNXI_PHY_TUNE_LOW,
      Readl SUNXI_PHY_TUNE_HIGH,
      Writel (regs p' SUNXI_PHY_TUNE_HIGH) SUNXI_PHY_TUNE_HIGH]"
    unfolding p' by (rule init_ok_events)
  have counts: "length (filter is_writel (new_events p p')) = 5"
    "length (filter is_readl (new_events p p')) = 4"
    by (simp_all add: ev)
  have lines: "clk_enabled p'" "\<not> reset_asserted p'"
    by (simp_all add: p' init_ok open_lines)
  have "regs p' off = regs p off"
    if "off \<notin> {SUNXI_PHY_EXTERNAL_CONTROL, SUNXI_PIPE_CLOCK_CONTROL, SUNXI_ISCR,
                     SUNXI_PHY_TUNE_LOW, SUNXI_PHY_TUNE_HIGH}" for off
    using that by (simp add: p' init_ok open_regs)
  with ev counts lines show ?thesis
    by blast
qed

theorem init_success_side_effects_witness:
  "sun50i_usb3_phy_init 0 0 phy_probed = (0, snd (sun50i_usb3_phy_init 0 0 phy_probed))
   \<and> length (filter is_writel (new_events phy_probed (snd (sun50i_usb3_phy_init 0 0 phy_probed)))) = 5
   \<and> length (filter is_readl (new_events phy_probed (snd (sun50i_usb3_phy_init 0 0 phy_probed)))) = 4
   \<and> clk_enabled (snd (sun50i_usb3_phy_init 0 0 phy_probed))
   \<and> regs (snd (sun50i_usb3_phy_init 0 0 phy_probed)) 0x04 = regs phy_probed 0x04"
proof -
  have run: "sun50i_usb3_phy_init 0 0 phy_probed = (0, snd (sun50i_usb3_phy_init 0 0 phy_probed))"
    by (simp add: init_ok)
  have "(0x04 :: u32) \<notin> {SUNXI_PHY_EXTERNAL_CONTROL, SUNXI_PIPE_CLOCK_CONTROL, SUNXI_ISCR,
                     SUNXI_PHY_TUNE_LOW, SUNXI_PHY_TUNE_HIGH}"
    by (simp add: SUNXI_PHY_EXTERNAL_CONTROL_def SUNXI_PIPE_CLOCK_CONTROL_def SUNXI_ISCR_def
        SUNXI_PHY_TUNE_LOW_def SUNXI_PHY_TUNE_HIGH_def)
  with init_success_side_effects [OF run] run show ?thesis
    by blast
qed

section \<open>Properties of the pinctrl driver\<close>

subsection \<open>Decimal formatting\<close>

lemma below_ten: "d < 10 \<Longrightarrow> d \<in> {0, 1, 2, 3, 4, 5, 6, 7, 8, 9::nat}"
  by auto

lemma digit_char_digit: "d < 10 \<Longrightarrow> digit_char d \<in> set ''0123456789''"
  by (drule below_ten) (auto simp add: digit_char_def)

lemma digit_val_digit_char: "d < 10 \<Longrightarrow> digit_val (digit_char d) = d"
  by (drule below_ten) (auto simp add: digit_char_def digit_val_def)

lemma digit_char_zero_iff: "d < 10 \<Longrightarrow> digit_char d = CHR ''0'' \<longleftrightarrow> d = 0"
  by (drule below_ten) (auto simp add: digit_char_def)

lemma fmt_u_not_Nil: "fmt_u n \<noteq> []"
  by (subst fmt_u.simps) simp

lemma fmt_u_digits: "c \<in> set (fmt_u n) \<Longrightarrow> c \<in> set ''0123456789''"
proof (induction n rule: fmt_u.induct)
  case (1 n)
  show ?case
  proof (cases "n < 10")
    case True
    with "1.prems" show ?thesis
      by (subst (asm) fmt_u.simps) (use digit_char_digit [of n] in simp)
  next
    case False
    have "n mod 10 < 10" by simp
    from "1.prems" False have "c \<in> set (fmt_u (n div 10)) \<or> c = digit_char (n mod 10)"
      by (subst (asm) fmt_u.simps) auto
    then show ?thesis
      using "1.IH" [OF False] digit_char_digit [OF \<open>n mod 10 < 10\<close>] by blast
  qed
qed

lemma dec_value_snoc: "dec_value (ds @ [c]) = 10 * dec_value ds + digit_val c"
  by (simp add: dec_value_def)

lemma dec_value_fmt_u: "dec_value (fmt_u n) = n"
proof (induction n rule: fmt_u.induct)
  case (1 n)
  show ?case
  proof (cases "n < 10")
    case True
    then show ?thesis
      by (subst fmt_u.simps) (simp add: dec_value_def digit_val_digit_char)
  next
    case False
    then show ?thesis
      using "1.IH" by (subst fmt_u.simps) (simp add: dec_value_snoc digit_val_digit_char)
  qed
qed

lemma hd_fmt_u_zero: "hd (fmt_u n) = CHR ''0'' \<Longrightarrow> n = 0"
proof (induction n rule: fmt_u.induct)
  case (1 n)
  show ?case
  proof (cases "n < 10")
    case True
    with "1.prems" show ?thesis
      by (subst (asm) fmt_u.simps) (simp add: digit_char_zero_iff)
  next
    case False
    with "1.prems" have "hd (fmt_u (n div 10)) = CHR ''0''"
      by (subst (asm) fmt_u.simps) (simp add: fmt_u_not_Nil)
    with "1.IH" False have "n div 10 = 0"
      by simp
    with False show ?thesis
      by simp
  qed
qed

lemma fmt_u_0: "fmt_u 0 = ''0''"
  by (subst fmt_u.simps) (simp add: digit_char_def)

lemma fmt_u_is_decimal: "is_decimal_of (fmt_u n) n"
  using hd_fmt_u_zero [of n] fmt_u_digits [of _ n]
  by (auto simp add: is_decimal_of_def fmt_u_not_Nil dec_value_fmt_u list_all_iff fmt_u_0)

lemma fmt_u_length: "0 < k \<Longrightarrow> n < 10 ^ k \<Longrightarrow> length (fmt_u n) \<le> k"
proof (induction k arbitrary: n)
  case 0
  then show ?case by simp
next
  case (Suc k)
  show ?case
  proof (cases "n < 10")
    case True
    then show ?thesis
      by (subst fmt_u.simps) simp
  next
    case False
    with Suc.prems have "0 < k"
      by (cases k) auto
    moreover from Suc.prems have "n div 10 < 10 ^ k"
      by (simp add: less_mult_imp_div_less mult.commute)
    ultimately have "length (fmt_u (n div 10)) \<le> k"
      by (rule Suc.IH)
    with False show ?thesis
      by (subst fmt_u.simps) simp
  qed
qed

lemma fmt_u_no_NUL: "NUL \<notin> set (fmt_u n)"
  using fmt_u_digits [of NUL n] by (auto simp add: NUL_def)

lemma gpio_name_no_NUL: "NUL \<notin> set (''GPIO_'' @ fmt_u n)"
  using fmt_u_no_NUL [of n] by (simp add: NUL_def)

lemma cstr_terminated: "NUL \<notin> set w \<Longrightarrow> cstr (w @ NUL # rest) = w"
  by (auto simp add: cstr_def takeWhile_append)

lemma snprintf_fits:
  "length out < sz \<Longrightarrow> snprintf buf sz out = (out @ NUL # drop (Suc (length out)) buf, length out)"
  by (simp add: snprintf_def)

lemma fmt_u_length_u32: "length (fmt_u (unat (s :: u32))) \<le> 10"
proof -
  have "unat s < 2 ^ 32"
    using unsigned_less [of s] by simp
  also have "(2 :: nat) ^ 32 < 10 ^ 10"
    by simp
  finally show ?thesis
    by (intro fmt_u_length) simp_all
qed

lemma gpio_name_length_u32: "length (''GPIO_'' @ fmt_u (unat (s :: u32))) \<le> 15"
  using fmt_u_length_u32 [of s] by simp

lemma get_pin_name_gpio:
  assumes "selector < 150"
  shows "apq8096_get_pin_name selector pin_name =
     (Some (''GPIO_'' @ fmt_u (unat selector)),
      (''GPIO_'' @ fmt_u (unat selector)) @ NUL #
        drop (Suc (length (''GPIO_'' @ fmt_u (unat selector)))) pin_name)"
proof -
  let ?name = "''GPIO_'' @ fmt_u (unat selector)"
  have "length ?name < MAX_PIN_NAME_LEN"
    using gpio_name_length_u32 [of selector] by (simp add: MAX_PIN_NAME_LEN_def)
  then have "snprintf pin_name MAX_PIN_NAME_LEN ?name =
      (?name @ NUL # drop (Suc (length ?name)) pin_name, length ?name)"
    by (rule snprintf_fits)
  moreover have "cstr (?name @ NUL # drop (Suc (length ?name)) pin_name) = ?name"
    using gpio_name_no_NUL by (rule cstr_terminated)
  ultimately show ?thesis
    using assms by (simp add: apq8096_get_pin_name_def Let_def)
qed

text \<open>
  C6: for every selector below 150, \<open>get_pin_name\<close> returns the string \<open>GPIO_\<close> followed
  by the decimal rendering of the selector (whatever the scratch buffer held before).
\<close>

theorem get_pin_name_gpio_decimal:
  assumes "selector < 150"
  shows "fst (apq8096_get_pin_name selector pin_name) = Some (''GPIO_'' @ fmt_u (unat selector))
    \<and> get_pin_name apq8096_data selector pin_name = apq8096_get_pin_name selector pin_name
    \<and> is_decimal_of (fmt_u (unat selector)) (unat selector)"
  using assms by (simp add: get_pin_name_gpio fmt_u_is_decimal apq8096_data_def)

theorem get_pin_name_gpio_decimal_witness:
  "(149 :: u32) < 150
   \<and> fst (apq8096_get_pin_name 149 (replicate 32 NUL)) = Some ''GPIO_149''
   \<and> fst (apq8096_get_pin_name 0 (replicate 32 NUL)) = Some ''GPIO_0''
   \<and> is_decimal_of ''149'' 149"
proof -
  have f: "fmt_u 149 = ''149''" "fmt_u 0 = ''0''"
    by (simp_all add: fmt_u.simps digit_char_def)
  have lt: "(149 :: u32) < 150" "(0 :: u32) < 150"
    by simp_all
  show ?thesis
    using get_pin_name_gpio_decimal [OF lt(1), of "replicate 32 NUL"]
      get_pin_name_gpio_decimal [OF lt(2), of "replicate 32 NUL"]
    by (simp add: f)
qed

text \<open>
  C7: for every selector from 150 to 156, \<open>get_pin_name\<close> returns the entry of the
  named-pin table at index selector - 150 and leaves the scratch buffer alone; selector
  150 gives \<open>SDC1_CLK\<close> and selector 156 gives \<open>SDC1_RCLK\<close>.
\<close>

theorem get_pin_name_named:
  assumes "150 \<le> selector" and "selector < 157"
  shows "fst (apq8096_get_pin_name selector pin_name) = Some (msm_pinctrl_pins ! (unat selector - 150))
    \<and> snd (apq8096_get_pin_name selector pin_name) = pin_name
    \<and> fst (apq8096_get_pin_name 150 pin_name) = Some ''SDC1_CLK''
    \<and> fst (apq8096_get_pin_name 156 pin_name) = Some ''SDC1_RCLK''"
proof -
  from assms(1) have sub: "unat (selector - 150) = unat selector - 150"
    by (simp add: unat_sub)
  from assms(2) have "unat selector < 157"
    by (simp add: word_less_nat_alt)
  then have "unat selector - 150 < length msm_pinctrl_pins"
    by (simp add: msm_pinctrl_pins_def)
  moreover from assms(1) have "\<not> selector < 150"
    by simp
  ultimately have "fst (apq8096_get_pin_name selector pin_name) =
      Some (msm_pinctrl_pins ! (unat selector - 150))"
    "snd (apq8096_get_pin_name selector pin_name) = pin_name"
    by (simp_all add: apq8096_get_pin_name_def array_read_def sub)
  moreover have "fst (apq8096_get_pin_name 150 pin_name) = Some ''SDC1_CLK''"
    "fst (apq8096_get_pin_name 156 pin_name) = Some ''SDC1_RCLK''"
    by (simp_all add: apq8096_get_pin_name_def array_read_def msm_pinctrl_pins_def)
  ultimately show ?thesis
    by simp
qed

theorem get_pin_name_named_witness:
  "(150 :: u32) \<le> 153 \<and> (153 :: u32) < 157
   \<and> fst (apq8096_get_pin_name 153 []) = Some ''SDC2_CLK''
   \<and> fst (apq8096_get_pin_name 156 []) = Some ''SDC1_RCLK''"
proof -
  have h: "(150 :: u32) \<le> 153" "(153 :: u32) < 157"
    by simp_all
  show ?thesis
    using get_pin_name_named [OF h, of "[]"] by (simp add: msm_pinctrl_pins_def)
qed

text \<open>
  C10: the formatted name has at most 5 + 10 = 15 characters for any 32-bit selector, which
  is strictly less than the 32 bytes of the scratch buffer. So for a selector below 150 the
  \<open>snprintf\<close> does not truncate (the length it reports is below the buffer size), the
  buffer keeps its size, holds the full name followed by a NUL, and the returned string
  is the full name.
\<close>

theorem gpio_name_fits_buffer:
  assumes "selector < 150" and "length pin_name = MAX_PIN_NAME_LEN"
    and "apq8096_get_pin_name selector pin_name = (r, pin_name')"
  shows "(\<forall>s :: u32. length (''GPIO_'' @ fmt_u (unat s)) \<le> 15)
    \<and> length (''GPIO_'' @ fmt_u (unat selector)) < MAX_PIN_NAME_LEN
    \<and> snd (snprintf pin_name MAX_PIN_NAME_LEN (''GPIO_'' @ fmt_u (unat selector)))
        < MAX_PIN_NAME_LEN
    \<and> r = Some (''GPIO_'' @ fmt_u (unat selector))
    \<and> length pin_name' = MAX_PIN_NAME_LEN
    \<and> take (length (''GPIO_'' @ fmt_u (unat selector))) pin_name' = ''GPIO_'' @ fmt_u (unat selector)
    \<and> pin_name' ! length (''GPIO_'' @ fmt_u (unat selector)) = NUL"
proof -
  let ?name = "''GPIO_'' @ fmt_u (unat selector)"
  have len: "length ?name < MAX_PIN_NAME_LEN"
    using gpio_name_length_u32 [of selector] by (simp add: MAX_PIN_NAME_LEN_def)
  from assms(1,3) have r: "r = Some ?name"
    and buf: "pin_name' = ?name @ NUL # drop (Suc (length ?name)) pin_name"
    by (simp_all add: get_pin_name_gpio)
  have "length pin_name' = MAX_PIN_NAME_LEN"
    using len assms(2) unfolding buf by simp
  moreover have "take (length ?name) pin_name' = ?name"
    unfolding buf by simp
  moreover have "pin_name' ! length ?name = NUL"
    unfolding buf by (simp only: nth_append_length)
  moreover have "snd (snprintf pin_name MAX_PIN_NAME_LEN ?name) < MAX_PIN_NAME_LEN"
    using len by (simp add: snprintf_fits)
  ultimately show ?thesis
    using len r gpio_name_length_u32 by blast
qed

theorem gpio_name_fits_buffer_witness:
  "(149 :: u32) < 150
   \<and> length (replicate 32 NUL) = MAX_PIN_NAME_LEN
   \<and> apq8096_get_pin_name 149 (replicate 32 NUL) = (Some ''GPIO_149'', ''GPIO_149'' @ NUL # replicate 23 NUL)
   \<and> length (''GPIO_'' @ fmt_u (unat (4294967295 :: u32))) \<le> 15
   \<and> length ''GPIO_149'' < MAX_PIN_NAME_LEN
   \<and> length (snd (apq8096_get_pin_name 149 (replicate 32 NUL))) = MAX_PIN_NAME_LEN
   \<and> snd (apq8096_get_pin_name 149 (replicate 32 NUL)) ! 8 = NUL"
proof -
  have f: "fmt_u 149 = ''149''"
    by (simp add: fmt_u.simps digit_char_def)
  have lt: "(149 :: u32) < 150"
    by simp
  have len: "length (replicate 32 NUL) = MAX_PIN_NAME_LEN"
    by (simp add: MAX_PIN_NAME_LEN_def)
  have run: "apq8096_get_pin_name 149 (replicate 32 NUL) =
      (Some ''GPIO_149'', ''GPIO_149'' @ NUL # replicate 23 NUL)"
    by (simp add: apq8096_get_pin_name_def snprintf_def MAX_PIN_NAME_LEN_def f cstr_def NUL_def)
  note t = gpio_name_fits_buffer [OF lt len run]
  from t have "length (''GPIO_'' @ fmt_u (unat (4294967295 :: u32))) \<le> 15"
    by blast
  moreover from t have "length ''GPIO_149'' < MAX_PIN_NAME_LEN"
    "length (''GPIO_149'' @ NUL # replicate 23 NUL) = MAX_PIN_NAME_LEN"
    "(''GPIO_149'' @ NUL # replicate 23 NUL) ! 8 = NUL"
    by (simp_all add: f)
  moreover have "snd (apq8096_get_pin_name 149 (replicate 32 NUL)) =
      ''GPIO_149'' @ NUL # replicate 23 NUL"
    by (simp only: run snd_conv)
  ultimately show ?thesis
    using lt len run by (simp only: simp_thms)
qed

text \<open>
  C8: the table constants. Function 0 is named \<open>blsp_uart8\<close> and has mux value 2; the
  descriptor has 157 pins and one function.
\<close>

theorem apq8096_table_constants:
  "get_function_name apq8096_data 0 = Some ''blsp_uart8''
   \<and> get_function_mux apq8096_data 0 = Some 2
   \<and> pin_count apq8096_data = 157
   \<and> functions_count apq8096_data = 1"
  by (simp add: apq8096_data_def apq8096_get_function_name_def apq8096_get_function_mux_def
      array_read_def msm_pinctrl_functions_def)

end
